theory Spec2Isabelle
  imports Complex_Main
begin

section \<open>Two-view verification utilities and the view-selection score of gtsfm\<close>

text \<open>
  A shallow embedding of \<^verbatim>\<open>gtsfm/utils/verification.py\<close>, of the older copy
  \<^verbatim>\<open>utils/verification.py\<close> and of \<^verbatim>\<open>gtsfm/densify/mvs_math.py\<close>.

  Numbers: a finite numpy/Python float is a \<^typ>\<open>real\<close>, so rounding, overflow and
  underflow are idealised away. Where the source divides arrays with no guard, the
  quotient is a value of \<open>npfloat\<close> below, which adds the IEEE infinities and NaN that
  numpy returns there. Exceptions are values of \<open>error\<close>; a function that can raise
  returns \<open>error + 'a\<close>, with \<open>Inl\<close> for the exception.
\<close>

subsection \<open>Exceptions\<close>

datatype error =
    NameError string  \<comment> \<open>Python: a name that is bound nowhere\<close>
  | AttributeError string  \<comment> \<open>Python: a method the object does not have\<close>
  | SingularMatrixError  \<comment> \<open>\<^verbatim>\<open>numpy.linalg.LinAlgError("Singular matrix")\<close>\<close>
  | ValueError  \<comment> \<open>numpy: operands could not be broadcast together\<close>
  | ZeroDivisionError  \<comment> \<open>Python: float division by zero\<close>
  | DegenerateVectorError  \<comment> \<open>the angle between vectors, for a vector of length zero\<close>

subsection \<open>3x3 matrices and 3-vectors\<close>

type_synonym vec3 = "real \<times> real \<times> real"

datatype mat3 = Mat3 real real real real real real real real real
  \<comment> \<open>a 3x3 array, row by row\<close>

definition eye3 :: mat3 where
  "eye3 = Mat3 1 0 0 0 1 0 0 0 1"

fun transpose_m :: "mat3 \<Rightarrow> mat3" where
  "transpose_m (Mat3 a b c d e f g h i) = Mat3 a d g b e h c f i"

fun matmul :: "mat3 \<Rightarrow> mat3 \<Rightarrow> mat3" where
  "matmul (Mat3 a b c d e f g h i) (Mat3 a' b' c' d' e' f' g' h' i') =
     Mat3 (a * a' + b * d' + c * g') (a * b' + b * e' + c * h') (a * c' + b * f' + c * i')
          (d * a' + e * d' + f * g') (d * b' + e * e' + f * h') (d * c' + e * f' + f * i')
          (g * a' + h * d' + i * g') (g * b' + h * e' + i * h') (g * c' + h * f' + i * i')"

fun matvec :: "mat3 \<Rightarrow> vec3 \<Rightarrow> vec3" where
  "matvec (Mat3 a b c d e f g h i) (x, y, z) =
     (a * x + b * y + c * z, d * x + e * y + f * z, g * x + h * y + i * z)"

fun dot3 :: "vec3 \<Rightarrow> vec3 \<Rightarrow> real" where
  "dot3 (x, y, z) (x', y', z') = x * x' + y * y' + z * z'"

definition norm3 :: "vec3 \<Rightarrow> real" where
  "norm3 v = sqrt (dot3 v v)"

fun det :: "mat3 \<Rightarrow> real" where
  "det (Mat3 a b c d e f g h i) =
     a * (e * i - f * h) - b * (d * i - f * g) + c * (d * h - e * g)"

fun adjugate :: "mat3 \<Rightarrow> mat3" where
  "adjugate (Mat3 a b c d e f g h i) =
     Mat3 (e * i - f * h) (c * h - b * i) (b * f - c * e)
          (f * g - d * i) (a * i - c * g) (c * d - a * f)
          (d * h - e * g) (b * g - a * h) (a * e - b * d)"

fun smult :: "real \<Rightarrow> mat3 \<Rightarrow> mat3" where
  "smult s (Mat3 a b c d e f g h i) =
     Mat3 (s * a) (s * b) (s * c) (s * d) (s * e) (s * f) (s * g) (s * h) (s * i)"

fun entry :: "mat3 \<Rightarrow> nat \<Rightarrow> nat \<Rightarrow> real" where
  "entry (Mat3 a b c d e f g h i) r s =
     (if r = 0 then (if s = 0 then a else if s = 1 then b else c)
      else if r = 1 then (if s = 0 then d else if s = 1 then e else f)
      else (if s = 0 then g else if s = 1 then h else i))"

text \<open>
  \<^verbatim>\<open>numpy.linalg.inv\<close> on a 3x3 array: it raises \<^verbatim>\<open>LinAlgError\<close> for a singular matrix and
  returns the inverse otherwise. Over the reals a matrix is singular exactly when its
  determinant is zero.
\<close>

definition np_linalg_inv :: "mat3 \<Rightarrow> error + mat3" where
  "np_linalg_inv A =
     (if det A = 0 then Inl SingularMatrixError else Inr (smult (1 / det A) (adjugate A)))"

text \<open>What the claims call invertible: a two-sided inverse exists.\<close>

definition invertible :: "mat3 \<Rightarrow> bool" where
  "invertible A = (\<exists>B. matmul A B = eye3 \<and> matmul B A = eye3)"

subsection \<open>Intrinsics and the essential-matrix object\<close>

text \<open>
  \<^verbatim>\<open>gtsam.Cal3Bundler\<close> is used through its accessor \<^verbatim>\<open>K()\<close> only, which returns the
  3x3 calibration matrix.
\<close>

record Cal3Bundler =
  K :: mat3

text \<open>
  The first argument of \<^verbatim>\<open>essential_to_fundamental_matrix\<close> is annotated
  \<^verbatim>\<open>EssentialMatrix\<close> (the gtsam class, read through its method \<^verbatim>\<open>matrix()\<close>), while
  \<^verbatim>\<open>fundamental_to_essential_matrix\<close> returns a \<^verbatim>\<open>numpy.ndarray\<close>, which has no such
  method. Both kinds of object can reach the function at run time.
\<close>

datatype pyobject =
    NdArray mat3
  | EssentialMatrix mat3

fun matrix_method :: "pyobject \<Rightarrow> error + mat3" where
  "matrix_method (EssentialMatrix m) = Inr m"
| "matrix_method (NdArray m) = Inl (AttributeError ''matrix'')"

subsection \<open>\<^verbatim>\<open>gtsfm/utils/verification.py\<close>: conversions\<close>

text \<open>\<^verbatim>\<open>return camera_intrinsics_i2.K().T @ i2Fi1 @ camera_intrinsics_i1.K()\<close>\<close>

definition fundamental_to_essential_matrix :: "mat3 \<Rightarrow> 'a Cal3Bundler_scheme \<Rightarrow> 'b Cal3Bundler_scheme \<Rightarrow> mat3" where
  "fundamental_to_essential_matrix i2Fi1 camera_intrinsics_i1 camera_intrinsics_i2 =
     matmul (matmul (transpose_m (K camera_intrinsics_i2)) i2Fi1) (K camera_intrinsics_i1)"

text \<open>
  \<^verbatim>\<open>return np.linalg.inv(camera_intrinsics_i2.K().T) @ i2Ei1.matrix()
      @ np.linalg.inv(camera_intrinsics_i1.K())\<close>

  Python evaluates the operands from left to right, so the first failing one decides
  the exception.
\<close>

definition essential_to_fundamental_matrix :: "pyobject \<Rightarrow> 'a Cal3Bundler_scheme \<Rightarrow> 'b Cal3Bundler_scheme \<Rightarrow> error + mat3" where
  "essential_to_fundamental_matrix i2Ei1 camera_intrinsics_i1 camera_intrinsics_i2 =
     (case np_linalg_inv (transpose_m (K camera_intrinsics_i2)) of
        Inl e \<Rightarrow> Inl e
      | Inr inv2 \<Rightarrow>
          (case matrix_method i2Ei1 of
             Inl e \<Rightarrow> Inl e
           | Inr E \<Rightarrow>
               (case np_linalg_inv (K camera_intrinsics_i1) of
                  Inl e \<Rightarrow> Inl e
                | Inr inv1 \<Rightarrow> Inr (matmul (matmul inv2 E) inv1))))"

subsection \<open>\<^verbatim>\<open>utils/verification.py\<close>: the older conversion\<close>

text \<open>
  The body binds \<^verbatim>\<open>fx\<close>, \<^verbatim>\<open>px\<close> and \<^verbatim>\<open>py\<close>, then builds
  \<^verbatim>\<open>K2 = np.array([[fx, 0, px],[0, fy, py], [0,0,1]])\<close> and \<^verbatim>\<open>K1\<close> alike, and returns
  \<^verbatim>\<open>K2.T @ i2Fi1 @ K1\<close>. It never reads its two intrinsics arguments. The names it
  reads are looked up in the local bindings; the module binds none of them globally.
\<close>

definition utils_locals :: "string \<rightharpoonup> real" where
  "utils_locals =
     [''fx'' \<mapsto> 1392.1069298937407, ''px'' \<mapsto> 980.1759848618066, ''py'' \<mapsto> 604.3534182680304]"

definition load_name :: "(string \<rightharpoonup> real) \<Rightarrow> string \<Rightarrow> error + real" where
  "load_name env x = (case env x of None \<Rightarrow> Inl (NameError x) | Some v \<Rightarrow> Inr v)"

definition utils_calibration :: "(string \<rightharpoonup> real) \<Rightarrow> error + mat3" where
  "utils_calibration env =
     (case load_name env ''fx'' of Inl e \<Rightarrow> Inl e | Inr fx \<Rightarrow>
     (case load_name env ''px'' of Inl e \<Rightarrow> Inl e | Inr px \<Rightarrow>
     (case load_name env ''fy'' of Inl e \<Rightarrow> Inl e | Inr fy \<Rightarrow>
     (case load_name env ''py'' of Inl e \<Rightarrow> Inl e | Inr py \<Rightarrow>
        Inr (Mat3 fx 0 px 0 fy py 0 0 1)))))"

definition utils_fundamental_to_essential_matrix :: "mat3 \<Rightarrow> 'a Cal3Bundler_scheme \<Rightarrow> 'b Cal3Bundler_scheme \<Rightarrow> error + mat3" where
  "utils_fundamental_to_essential_matrix i2Fi1 camera_intrinsics_i1 camera_intrinsics_i2 =
     (case utils_calibration utils_locals of Inl e \<Rightarrow> Inl e | Inr K2 \<Rightarrow>
     (case utils_calibration utils_locals of Inl e \<Rightarrow> Inl e | Inr K1 \<Rightarrow>
        Inr (matmul (matmul (transpose_m K2) i2Fi1) K1)))"

subsection \<open>numpy floats and arrays\<close>

text \<open>
  A float64 as numpy computes with it: a finite value, an infinity or NaN. numpy does
  not raise on a division by zero, it returns an infinity or NaN (with a warning). The
  divisors of the source are sums of squares and their square roots, so a zero divisor
  is never the negative zero.
\<close>

datatype npfloat = Fin real | PInf | NInf | NaN

fun is_finite :: "npfloat \<Rightarrow> bool" where
  "is_finite (Fin a) = True"
| "is_finite PInf = False"
| "is_finite NInf = False"
| "is_finite NaN = False"

fun np_add :: "npfloat \<Rightarrow> npfloat \<Rightarrow> npfloat" where
  "np_add (Fin a) (Fin b) = Fin (a + b)"
| "np_add NaN y = NaN"
| "np_add x NaN = NaN"
| "np_add PInf NInf = NaN"
| "np_add NInf PInf = NaN"
| "np_add PInf y = PInf"
| "np_add x PInf = PInf"
| "np_add NInf y = NInf"
| "np_add x NInf = NInf"

fun np_multiply :: "npfloat \<Rightarrow> npfloat \<Rightarrow> npfloat" where
  "np_multiply (Fin a) (Fin b) = Fin (a * b)"
| "np_multiply NaN y = NaN"
| "np_multiply x NaN = NaN"
| "np_multiply (Fin a) PInf = (if a = 0 then NaN else if 0 < a then PInf else NInf)"
| "np_multiply (Fin a) NInf = (if a = 0 then NaN else if 0 < a then NInf else PInf)"
| "np_multiply PInf (Fin b) = (if b = 0 then NaN else if 0 < b then PInf else NInf)"
| "np_multiply NInf (Fin b) = (if b = 0 then NaN else if 0 < b then NInf else PInf)"
| "np_multiply PInf PInf = PInf"
| "np_multiply NInf NInf = PInf"
| "np_multiply PInf NInf = NInf"
| "np_multiply NInf PInf = NInf"

fun np_divide :: "npfloat \<Rightarrow> npfloat \<Rightarrow> npfloat" where
  "np_divide (Fin a) (Fin b) =
     (if b = 0 then (if a = 0 then NaN else if 0 < a then PInf else NInf) else Fin (a / b))"
| "np_divide NaN y = NaN"
| "np_divide x NaN = NaN"
| "np_divide (Fin a) PInf = Fin 0"
| "np_divide (Fin a) NInf = Fin 0"
| "np_divide PInf (Fin b) = (if 0 \<le> b then PInf else NInf)"
| "np_divide NInf (Fin b) = (if 0 \<le> b then NInf else PInf)"
| "np_divide PInf PInf = NaN"
| "np_divide PInf NInf = NaN"
| "np_divide NInf PInf = NaN"
| "np_divide NInf NInf = NaN"

fun np_sqrt :: "npfloat \<Rightarrow> npfloat" where
  "np_sqrt (Fin a) = (if a < 0 then NaN else Fin (sqrt a))"
| "np_sqrt PInf = PInf"
| "np_sqrt NInf = NaN"
| "np_sqrt NaN = NaN"

text \<open>
  An elementwise operation on two arrays with \<open>n\<close> and \<open>m\<close> rows: numpy pairs the rows
  when \<open>n = m\<close>, repeats the only row of an array with one row, and raises otherwise.
\<close>

definition broadcast :: "('a \<Rightarrow> 'b \<Rightarrow> 'c) \<Rightarrow> 'a list \<Rightarrow> 'b list \<Rightarrow> error + 'c list" where
  "broadcast f xs ys =
     (if length xs = length ys then Inr (map2 f xs ys)
      else if length xs = 1 then Inr (map (f (hd xs)) ys)
      else if length ys = 1 then Inr (map (\<lambda>x. f x (hd ys)) xs)
      else Inl ValueError)"

type_synonym coordinates = "(real \<times> real) list"
  \<comment> \<open>an array of shape Nx2, row by row\<close>

definition np_size :: "coordinates \<Rightarrow> nat" where
  "np_size c = length c * 2"

subsection \<open>\<^verbatim>\<open>gtsfm/utils/features.py\<close>: the shared primitive\<close>

fun homogeneous :: "real \<times> real \<Rightarrow> vec3" where
  "homogeneous (x, y) = (x, y, 1)"

text \<open>
  Modelled from the spec: \<^verbatim>\<open>feature_utils.convert_to_epipolar_lines\<close>, which the source
  imports and this repository's files do not hold. The spec: map a 2D point \<open>p\<close> to its
  homogeneous form \<open>(px, py, 1)\<close> and apply a 3x3 matrix to obtain a line \<open>l = M p\<close>.
\<close>

definition convert_to_epipolar_lines :: "coordinates \<Rightarrow> mat3 \<Rightarrow> vec3 list" where
  "convert_to_epipolar_lines coordinates M = map (\<lambda>p. matvec M (homogeneous p)) coordinates"

text \<open>
  Modelled from the spec: \<^verbatim>\<open>feature_utils.point_line_dotproduct\<close>, missing likewise. The
  spec: the unnormalized point-line incidence \<open>dot(p_h, l)\<close>, row by row. The spec says
  nothing of arrays with different numbers of rows; the model takes numpy's rule for a
  row-wise product there.
\<close>

definition point_line_dotproduct :: "coordinates \<Rightarrow> vec3 list \<Rightarrow> error + real list" where
  "point_line_dotproduct points lines = broadcast (\<lambda>p l. dot3 (homogeneous p) l) points lines"

subsection \<open>\<^verbatim>\<open>gtsfm/utils/verification.py\<close>: epipolar distances\<close>

text \<open>\<^verbatim>\<open>np.sum(np.square(lines[:, :2]), axis=1)\<close>\<close>

fun line_sq_norm :: "vec3 \<Rightarrow> real" where
  "line_sq_norm (a, b, c) = a * a + b * b"

definition line_sq_norms :: "vec3 list \<Rightarrow> real list" where
  "line_sq_norms lines = map line_sq_norm lines"

text \<open>\<^verbatim>\<open>1 / line_sq_norms\<close>: the scalar is divided by every element.\<close>

definition reciprocals :: "real list \<Rightarrow> npfloat list" where
  "reciprocals ns = map (\<lambda>n. np_divide (Fin 1) (Fin n)) ns"

text \<open>
  The result is \<open>Inr None\<close> where the source returns \<^verbatim>\<open>None\<close>, \<open>Inr (Some r)\<close> where it
  returns an array and \<open>Inl e\<close> where it raises.
\<close>

definition compute_epipolar_distances_sed :: "coordinates option \<Rightarrow> coordinates option \<Rightarrow> mat3 \<Rightarrow> error + npfloat list option" where
  "compute_epipolar_distances_sed coordinates_i1 coordinates_i2 i2Fi1 =
     (case coordinates_i1 of
        None \<Rightarrow> Inr None
      | Some c1 \<Rightarrow>
          if np_size c1 = 0 then Inr None
          else
            (case coordinates_i2 of
               None \<Rightarrow> Inr None
             | Some c2 \<Rightarrow>
                 if np_size c2 = 0 then Inr None
                 else
                   (let epipolar_lines_i2 = convert_to_epipolar_lines c1 i2Fi1;
                        epipolar_lines_i1 = convert_to_epipolar_lines c2 (transpose_m i2Fi1)
                    in
                      (case point_line_dotproduct c1 epipolar_lines_i1 of
                         Inl e \<Rightarrow> Inl e
                       | Inr numerator \<Rightarrow>
                           (let line_sq_norms_i1 = line_sq_norms epipolar_lines_i1;
                                line_sq_norms_i2 = line_sq_norms epipolar_lines_i2
                            in
                              (case broadcast np_add (reciprocals line_sq_norms_i1)
                                      (reciprocals line_sq_norms_i2) of
                                 Inl e \<Rightarrow> Inl e
                               | Inr s \<Rightarrow>
                                   (case broadcast np_multiply (map Fin numerator) (map np_sqrt s) of
                                      Inl e \<Rightarrow> Inl e
                                    | Inr r \<Rightarrow> Inr (Some r))))))))"

definition compute_epipolar_distances_sampson :: "coordinates option \<Rightarrow> coordinates option \<Rightarrow> mat3 \<Rightarrow> error + npfloat list option" where
  "compute_epipolar_distances_sampson coordinates_i1 coordinates_i2 i2Fi1 =
     (case coordinates_i1 of
        None \<Rightarrow> Inr None
      | Some c1 \<Rightarrow>
          if np_size c1 = 0 then Inr None
          else
            (case coordinates_i2 of
               None \<Rightarrow> Inr None
             | Some c2 \<Rightarrow>
                 if np_size c2 = 0 then Inr None
                 else
                   (let epipolar_lines_i2 = convert_to_epipolar_lines c1 i2Fi1;
                        epipolar_lines_i1 = convert_to_epipolar_lines c2 (transpose_m i2Fi1);
                        line_sq_norms_i1 = line_sq_norms epipolar_lines_i1;
                        line_sq_norms_i2 = line_sq_norms epipolar_lines_i2
                    in
                      (case point_line_dotproduct c1 epipolar_lines_i1 of
                         Inl e \<Rightarrow> Inl e
                       | Inr numerator \<Rightarrow>
                           (case broadcast (+) line_sq_norms_i1 line_sq_norms_i2 of
                              Inl e \<Rightarrow> Inl e
                            | Inr s \<Rightarrow>
                                (let denominator = map sqrt s in
                                   (case broadcast np_divide (map Fin numerator)
                                           (map Fin denominator) of
                                      Inl e \<Rightarrow> Inl e
                                    | Inr r \<Rightarrow> Inr (Some r))))))))"

subsection \<open>The per-row formulas of the specification\<close>

text \<open>
  The specification's words for one correspondence \<open>(p1, p2)\<close>: \<open>line2\<close> is \<open>F\<close> applied
  to the homogeneous \<open>p1\<close>, \<open>line1\<close> is the transpose of \<open>F\<close> applied to the homogeneous
  \<open>p2\<close>, and the numerator is the incidence of the homogeneous \<open>p1\<close> against \<open>line1\<close>.
\<close>

fun line_xy_norm :: "vec3 \<Rightarrow> real" where
  "line_xy_norm (a, b, c) = sqrt (a\<^sup>2 + b\<^sup>2)"

definition spec_line2 :: "mat3 \<Rightarrow> real \<times> real \<Rightarrow> vec3" where
  "spec_line2 F p1 = matvec F (homogeneous p1)"

definition spec_line1 :: "mat3 \<Rightarrow> real \<times> real \<Rightarrow> vec3" where
  "spec_line1 F p2 = matvec (transpose_m F) (homogeneous p2)"

definition spec_numerator :: "mat3 \<Rightarrow> real \<times> real \<Rightarrow> real \<times> real \<Rightarrow> real" where
  "spec_numerator F p1 p2 = dot3 (homogeneous p1) (spec_line1 F p2)"

text \<open>\<open>numerator * sqrt (1 / |line1_xy|^2 + 1 / |line2_xy|^2)\<close>\<close>

definition spec_sed_row :: "mat3 \<Rightarrow> real \<times> real \<Rightarrow> real \<times> real \<Rightarrow> npfloat" where
  "spec_sed_row F p1 p2 =
     np_multiply (Fin (spec_numerator F p1 p2))
       (np_sqrt (np_add (np_divide (Fin 1) (Fin ((line_xy_norm (spec_line1 F p2))\<^sup>2)))
                        (np_divide (Fin 1) (Fin ((line_xy_norm (spec_line2 F p1))\<^sup>2)))))"

text \<open>\<open>numerator / sqrt (|line1_xy|^2 + |line2_xy|^2)\<close>\<close>

definition spec_sampson_row :: "mat3 \<Rightarrow> real \<times> real \<Rightarrow> real \<times> real \<Rightarrow> npfloat" where
  "spec_sampson_row F p1 p2 =
     np_divide (Fin (spec_numerator F p1 p2))
       (Fin (sqrt ((line_xy_norm (spec_line1 F p2))\<^sup>2 + (line_xy_norm (spec_line2 F p1))\<^sup>2)))"

subsection \<open>\<^verbatim>\<open>gtsfm/utils/verification.py\<close>: relative pose\<close>

datatype Rot3 = Rot3 mat3

datatype Unit3 = Unit3 vec3

text \<open>
  \<^verbatim>\<open>feature_utils.normalize_coordinates\<close> and OpenCV's \<^verbatim>\<open>cv.recoverPose\<close> are not part of
  these files: the function takes them as its first two parameters. \<^verbatim>\<open>recoverPose\<close>
  returns the rotation and the translation (the source drops its two other results).
\<close>

definition recover_relative_pose_from_essential_matrix ::
  "(coordinates \<Rightarrow> 'a Cal3Bundler_scheme \<Rightarrow> error + coordinates) \<Rightarrow>
   (mat3 \<Rightarrow> coordinates \<Rightarrow> coordinates \<Rightarrow> error + mat3 \<times> vec3) \<Rightarrow>
   mat3 option \<Rightarrow> coordinates \<Rightarrow> coordinates \<Rightarrow>
   'a Cal3Bundler_scheme \<Rightarrow> 'a Cal3Bundler_scheme \<Rightarrow> error + Rot3 option \<times> Unit3 option" where
  "recover_relative_pose_from_essential_matrix normalize_coordinates recoverPose
       i2Ei1 verified_coordinates_i1 verified_coordinates_i2
       camera_intrinsics_i1 camera_intrinsics_i2 =
     (case i2Ei1 of
        None \<Rightarrow> Inr (None, None)
      | Some E \<Rightarrow>
          (case normalize_coordinates verified_coordinates_i1 camera_intrinsics_i1 of
             Inl e \<Rightarrow> Inl e
           | Inr normalized_coordinates_i1 \<Rightarrow>
               (case normalize_coordinates verified_coordinates_i2 camera_intrinsics_i2 of
                  Inl e \<Rightarrow> Inl e
                | Inr normalized_coordinates_i2 \<Rightarrow>
                    (case recoverPose E normalized_coordinates_i1 normalized_coordinates_i2 of
                       Inl e \<Rightarrow> Inl e
                     | Inr (i2Ri1, i2ti1) \<Rightarrow> Inr (Some (Rot3 i2Ri1), Some (Unit3 i2ti1))))))"

subsection \<open>\<^verbatim>\<open>gtsfm/densify/mvs_math.py\<close>\<close>

text \<open>
  Modelled from the spec: \<^verbatim>\<open>angle_between_vectors\<close> of
  \<^verbatim>\<open>gtsfm.utils.geometry_comparisons\<close>, which the source imports and this repository's
  files do not hold. The spec: the angle between the two rays in degrees, by the
  normalized dot product and the arccosine; it fails with a DegenerateVectorError if
  either ray has zero magnitude.
\<close>

definition angle_degrees :: "vec3 \<Rightarrow> vec3 \<Rightarrow> real" where
  "angle_degrees v1 v2 = arccos (dot3 v1 v2 / (norm3 v1 * norm3 v2)) * 180 / pi"

definition angle_between_vectors :: "vec3 \<Rightarrow> vec3 \<Rightarrow> error + real" where
  "angle_between_vectors v1 v2 =
     (if norm3 v1 = 0 \<or> norm3 v2 = 0 then Inl DegenerateVectorError
      else Inr (angle_degrees v1 v2))"

text \<open>
  The angle and the parameters are Python floats, whose division raises on a zero
  divisor.
\<close>

definition piecewise_gaussian :: "vec3 \<Rightarrow> vec3 \<Rightarrow> real \<Rightarrow> real \<Rightarrow> real \<Rightarrow> error + real" where
  "piecewise_gaussian xPa xPb theta_0 sigma_1 sigma_2 =
     (case angle_between_vectors xPa xPb of
        Inl e \<Rightarrow> Inl e
      | Inr theta_est \<Rightarrow>
          (let sigma = (if theta_est \<le> theta_0 then sigma_1 else sigma_2) in
             if 2 * sigma\<^sup>2 = 0 then Inl ZeroDivisionError
             else Inr (exp (- ((theta_est - theta_0)\<^sup>2) / (2 * sigma\<^sup>2)))))"

text \<open>The call with the default parameters \<^verbatim>\<open>theta_0 = 5, sigma_1 = 1, sigma_2 = 10\<close>.\<close>

definition piecewise_gaussian_default :: "vec3 \<Rightarrow> vec3 \<Rightarrow> error + real" where
  "piecewise_gaussian_default xPa xPb = piecewise_gaussian xPa xPb 5 1 10"

section \<open>Matrix algebra\<close>

lemma matmul_assoc: "matmul (matmul A B) C = matmul A (matmul B C)"
  by (cases A; cases B; cases C) (simp add: algebra_simps)

lemma adjugate_left: "matmul (adjugate A) A = smult (det A) eye3"
  by (cases A) (simp add: eye3_def algebra_simps)

lemma adjugate_right: "matmul A (adjugate A) = smult (det A) eye3"
  by (cases A) (simp add: eye3_def algebra_simps)

lemma det_matmul: "det (matmul A B) = det A * det B"
  by (cases A; cases B) (simp add: algebra_simps)

lemma det_transpose_m: "det (transpose_m A) = det A"
  by (cases A) (simp add: algebra_simps)

lemma det_eye3: "det eye3 = 1"
  by (simp add: eye3_def)

lemma smult_matmul_left: "matmul (smult s A) B = smult s (matmul A B)"
  by (cases A; cases B) (simp add: algebra_simps)

lemma smult_matmul_right: "matmul A (smult s B) = smult s (matmul A B)"
  by (cases A; cases B) (simp add: algebra_simps)

lemma smult_smult: "smult s (smult t A) = smult (s * t) A"
  by (cases A) (simp add: algebra_simps)

lemma smult_1: "smult 1 A = A"
  by (cases A) simp

lemma matmul_eye3_left: "matmul eye3 A = A"
  by (cases A) (simp add: eye3_def)

lemma matmul_eye3_right: "matmul A eye3 = A"
  by (cases A) (simp add: eye3_def)

lemma np_linalg_inv_left:
  assumes "np_linalg_inv A = Inr B"
  shows "matmul B A = eye3"
proof -
  from assms have d: "det A \<noteq> 0" and B: "B = smult (1 / det A) (adjugate A)"
    by (auto simp: np_linalg_inv_def split: if_splits)
  have "matmul B A = smult (1 / det A) (smult (det A) eye3)"
    by (simp add: B smult_matmul_left adjugate_left)
  also have "\<dots> = eye3"
    using d by (simp add: smult_smult smult_1)
  finally show ?thesis .
qed

lemma np_linalg_inv_right:
  assumes "np_linalg_inv A = Inr B"
  shows "matmul A B = eye3"
proof -
  from assms have d: "det A \<noteq> 0" and B: "B = smult (1 / det A) (adjugate A)"
    by (auto simp: np_linalg_inv_def split: if_splits)
  have "matmul A B = smult (1 / det A) (smult (det A) eye3)"
    by (simp add: B smult_matmul_right adjugate_right)
  also have "\<dots> = eye3"
    using d by (simp add: smult_smult smult_1)
  finally show ?thesis .
qed

lemma np_linalg_inv_defined:
  "det A \<noteq> 0 \<Longrightarrow> \<exists>B. np_linalg_inv A = Inr B"
  by (simp add: np_linalg_inv_def)

text \<open>The model of \<^verbatim>\<open>numpy.linalg.inv\<close> raises exactly on the non-invertible matrices.\<close>

lemma invertible_iff_det: "invertible A \<longleftrightarrow> det A \<noteq> 0"
proof
  assume "invertible A"
  then obtain B where "matmul A B = eye3"
    by (auto simp: invertible_def)
  then have "det A * det B = 1"
    using det_matmul [of A B] by (simp add: det_eye3)
  then show "det A \<noteq> 0"
    by auto
next
  assume "det A \<noteq> 0"
  then obtain B where "np_linalg_inv A = Inr B"
    using np_linalg_inv_defined by blast
  then have "matmul A B = eye3 \<and> matmul B A = eye3"
    by (simp add: np_linalg_inv_left np_linalg_inv_right)
  then show "invertible A"
    unfolding invertible_def by blast
qed

lemma np_linalg_inv_singular: "np_linalg_inv A = Inl SingularMatrixError \<longleftrightarrow> \<not> invertible A"
  by (simp add: invertible_iff_det np_linalg_inv_def)

lemma invertible_transpose_m: "invertible (transpose_m A) \<longleftrightarrow> invertible A"
  by (simp add: invertible_iff_det det_transpose_m)

section \<open>CalibrationConverter\<close>

text \<open>
  Claim C1, as its amended form. For invertible calibration matrices \<open>K1\<close>, \<open>K2\<close> and every
  3x3 matrix \<open>F\<close>: \<^verbatim>\<open>essential_to_fundamental_matrix\<close>, applied with the same intrinsics to
  an \<^verbatim>\<open>EssentialMatrix\<close> object whose \<^verbatim>\<open>matrix()\<close> is
  \<^verbatim>\<open>fundamental_to_essential_matrix(F, K1, K2)\<close>, returns \<open>F\<close>.
\<close>

theorem roundtrip_through_EssentialMatrix:
  assumes "invertible (K ci1)" and "invertible (K ci2)"
  shows "essential_to_fundamental_matrix
           (EssentialMatrix (fundamental_to_essential_matrix F ci1 ci2)) ci1 ci2 = Inr F"
proof -
  have d1: "det (K ci1) \<noteq> 0" and d2: "det (transpose_m (K ci2)) \<noteq> 0"
    using assms by (simp_all add: invertible_iff_det det_transpose_m)
  obtain inv1 where i1: "np_linalg_inv (K ci1) = Inr inv1"
    using d1 np_linalg_inv_defined by blast
  obtain inv2 where i2: "np_linalg_inv (transpose_m (K ci2)) = Inr inv2"
    using d2 np_linalg_inv_defined by blast
  have l: "matmul inv2 (transpose_m (K ci2)) = eye3"
    using i2 by (rule np_linalg_inv_left)
  have r: "matmul (K ci1) inv1 = eye3"
    using i1 by (rule np_linalg_inv_right)
  have "matmul (matmul inv2 (fundamental_to_essential_matrix F ci1 ci2)) inv1
      = matmul (matmul (matmul inv2 (transpose_m (K ci2))) F) (matmul (K ci1) inv1)"
    by (simp add: fundamental_to_essential_matrix_def matmul_assoc)
  also have "\<dots> = F"
    by (simp add: l r matmul_eye3_left matmul_eye3_right)
  finally show ?thesis
    by (simp add: essential_to_fundamental_matrix_def i1 i2)
qed

theorem roundtrip_through_EssentialMatrix_witness:
  "invertible (K \<lparr>K = Mat3 2 0 1 0 2 1 0 0 1\<rparr>) \<and> invertible (K \<lparr>K = Mat3 3 0 2 0 3 1 0 0 1\<rparr>) \<and>
   essential_to_fundamental_matrix
     (EssentialMatrix (fundamental_to_essential_matrix (Mat3 0 1 0 1 0 0 0 0 1)
        \<lparr>K = Mat3 2 0 1 0 2 1 0 0 1\<rparr> \<lparr>K = Mat3 3 0 2 0 3 1 0 0 1\<rparr>))
     \<lparr>K = Mat3 2 0 1 0 2 1 0 0 1\<rparr> \<lparr>K = Mat3 3 0 2 0 3 1 0 0 1\<rparr> = Inr (Mat3 0 1 0 1 0 0 0 0 1)"
proof -
  have a: "invertible (K \<lparr>K = Mat3 2 0 1 0 2 1 0 0 1\<rparr>)"
    by (simp add: invertible_iff_det)
  have b: "invertible (K \<lparr>K = Mat3 3 0 2 0 3 1 0 0 1\<rparr>)"
    by (simp add: invertible_iff_det)
  show ?thesis
    using a b roundtrip_through_EssentialMatrix [OF a b, of "Mat3 0 1 0 1 0 0 0 0 1"] by simp
qed

text \<open>
  The claim as it is stated composes the two functions directly. The array that
  \<^verbatim>\<open>fundamental_to_essential_matrix\<close> returns has no method \<^verbatim>\<open>matrix()\<close>, so the second
  call raises, already for identity intrinsics and the identity matrix.
\<close>

theorem roundtrip_on_ndarray_counterexample:
  "invertible (K \<lparr>K = eye3\<rparr>) \<and>
   essential_to_fundamental_matrix
     (NdArray (fundamental_to_essential_matrix eye3 \<lparr>K = eye3\<rparr> \<lparr>K = eye3\<rparr>))
     \<lparr>K = eye3\<rparr> \<lparr>K = eye3\<rparr> = Inl (AttributeError ''matrix'')"
  by (simp add: invertible_iff_det essential_to_fundamental_matrix_def np_linalg_inv_def eye3_def)

text \<open>The other direction: the fundamental matrix of an essential matrix converts back to it.\<close>

lemma essential_roundtrip:
  assumes "invertible (K ci1)" and "invertible (K ci2)"
  shows "\<exists>F. essential_to_fundamental_matrix (EssentialMatrix E) ci1 ci2 = Inr F \<and>
             fundamental_to_essential_matrix F ci1 ci2 = E"
proof -
  have d1: "det (K ci1) \<noteq> 0" and d2: "det (transpose_m (K ci2)) \<noteq> 0"
    using assms by (simp_all add: invertible_iff_det det_transpose_m)
  obtain inv1 where i1: "np_linalg_inv (K ci1) = Inr inv1"
    using d1 np_linalg_inv_defined by blast
  obtain inv2 where i2: "np_linalg_inv (transpose_m (K ci2)) = Inr inv2"
    using d2 np_linalg_inv_defined by blast
  have l: "matmul (transpose_m (K ci2)) inv2 = eye3"
    using i2 by (rule np_linalg_inv_right)
  have r: "matmul inv1 (K ci1) = eye3"
    using i1 by (rule np_linalg_inv_left)
  have "fundamental_to_essential_matrix (matmul (matmul inv2 E) inv1) ci1 ci2
      = matmul (matmul (matmul (transpose_m (K ci2)) inv2) E) (matmul inv1 (K ci1))"
    by (simp add: fundamental_to_essential_matrix_def matmul_assoc)
  also have "\<dots> = E"
    by (simp add: l r matmul_eye3_left matmul_eye3_right)
  finally show ?thesis
    by (simp add: essential_to_fundamental_matrix_def i1 i2)
qed

text \<open>
  \<^verbatim>\<open>gtsfm/utils/verification.py\<close> computes the product from the intrinsics it is given:
  entry \<open>(r, s)\<close> of the result is the sum of \<open>K2(k, r) * F(k, l) * K1(l, s)\<close>.
\<close>

lemma fundamental_to_essential_matrix_entries:
  assumes "r < 3" and "s < 3"
  shows "entry (fundamental_to_essential_matrix F ci1 ci2) r s =
    (\<Sum>k<3. \<Sum>l<3. entry (K ci2) k r * entry F k l * entry (K ci1) l s)"
proof -
  have r: "r = 0 \<or> r = 1 \<or> r = 2" using assms by auto
  have s: "s = 0 \<or> s = 1 \<or> s = 2" using assms by auto
  show ?thesis
    using r s
    by (cases F; cases "K ci1"; cases "K ci2")
      (auto simp: fundamental_to_essential_matrix_def numeral_3_eq_3 algebra_simps)
qed

text \<open>
  Claim C9, on the copy \<^verbatim>\<open>utils/verification.py\<close>: for every fundamental matrix and all
  intrinsics the call raises a NameError for \<^verbatim>\<open>fy\<close>, which the body reads and never
  binds; it returns no matrix, and the calibration it was building is a constant that
  does not depend on the arguments.
\<close>

theorem utils_fundamental_to_essential_matrix_raises:
  "utils_fundamental_to_essential_matrix F ci1 ci2 = Inl (NameError ''fy'')"
  by (simp add: utils_fundamental_to_essential_matrix_def utils_calibration_def load_name_def
      utils_locals_def)

text \<open>
  Claim C10. For every essential matrix \<open>E\<close> and all intrinsics of which \<open>K1\<close> or \<open>K2\<close> is
  not invertible, \<^verbatim>\<open>essential_to_fundamental_matrix\<close> raises the singular-matrix error.
\<close>

theorem essential_to_fundamental_matrix_singular:
  assumes "\<not> invertible (K ci1) \<or> \<not> invertible (K ci2)"
  shows "essential_to_fundamental_matrix (EssentialMatrix E) ci1 ci2 = Inl SingularMatrixError"
  using assms
  by (auto simp: essential_to_fundamental_matrix_def invertible_iff_det np_linalg_inv_def
      det_transpose_m)

text \<open>A focal length of zero in the first camera.\<close>

theorem essential_to_fundamental_matrix_singular_witness:
  "\<not> invertible (K \<lparr>K = Mat3 0 0 980 0 0 604 0 0 1\<rparr>) \<and>
   essential_to_fundamental_matrix (EssentialMatrix (Mat3 0 (-1) 0 1 0 0 0 0 0))
     \<lparr>K = Mat3 0 0 980 0 0 604 0 0 1\<rparr> \<lparr>K = eye3\<rparr> = Inl SingularMatrixError"
proof -
  have a: "\<not> invertible (K \<lparr>K = Mat3 0 0 980 0 0 604 0 0 1\<rparr>) \<or> \<not> invertible (K \<lparr>K = eye3\<rparr>)"
    by (simp add: invertible_iff_det)
  have b: "\<not> invertible (K \<lparr>K = Mat3 0 0 980 0 0 604 0 0 1\<rparr>)"
    by (simp add: invertible_iff_det)
  show ?thesis
    using b essential_to_fundamental_matrix_singular [OF a] by simp
qed

section \<open>PoseRecoverer\<close>

text \<open>
  Claim C5. With an absent essential matrix, \<^verbatim>\<open>recover_relative_pose_from_essential_matrix\<close>
  returns the pair \<^verbatim>\<open>(None, None)\<close>, whatever the coordinates, the intrinsics and the two
  external functions are.
\<close>

theorem recover_relative_pose_from_essential_matrix_None:
  "recover_relative_pose_from_essential_matrix normalize_coordinates recoverPose None
     verified_coordinates_i1 verified_coordinates_i2 camera_intrinsics_i1 camera_intrinsics_i2
   = Inr (None, None)"
  by (simp add: recover_relative_pose_from_essential_matrix_def)

section \<open>EpipolarScorer\<close>

text \<open>
  Claim C4. For every fundamental matrix, both distance functions return \<^verbatim>\<open>None\<close>, and
  raise nothing, when either coordinate array is \<^verbatim>\<open>None\<close> or empty.
\<close>

theorem epipolar_distances_no_data:
  assumes "coordinates_i1 = None \<or> coordinates_i1 = Some [] \<or>
           coordinates_i2 = None \<or> coordinates_i2 = Some []"
  shows "compute_epipolar_distances_sed coordinates_i1 coordinates_i2 i2Fi1 = Inr None \<and>
         compute_epipolar_distances_sampson coordinates_i1 coordinates_i2 i2Fi1 = Inr None"
  using assms
  by (auto simp: compute_epipolar_distances_sed_def compute_epipolar_distances_sampson_def
      np_size_def split: option.splits)

theorem epipolar_distances_no_data_witness:
  "(Some [(1, 2)] = (None :: coordinates option) \<or> Some [(1, 2)] = Some ([] :: coordinates) \<or>
    (Some [] :: coordinates option) = None \<or> (Some [] :: coordinates option) = Some []) \<and>
   compute_epipolar_distances_sed (Some [(1, 2)]) (Some []) eye3 = Inr None \<and>
   compute_epipolar_distances_sampson (Some [(1, 2)]) (Some []) eye3 = Inr None"
  using epipolar_distances_no_data [of "Some [(1, 2)]" "Some []" eye3] by simp

subsection \<open>The array pipeline against the per-row formulas\<close>

lemma broadcast_same_length:
  "length xs = length ys \<Longrightarrow> broadcast f xs ys = Inr (map2 f xs ys)"
  by (simp add: broadcast_def)

lemma line_sq_norm_xy: "line_sq_norm l = (line_xy_norm l)\<^sup>2"
  by (cases l) (simp add: power2_eq_square)

lemma sed_rows:
  "length c1 = length c2 \<Longrightarrow>
   map2 np_multiply
     (map Fin (map2 (\<lambda>p l. dot3 (homogeneous p) l) c1
        (convert_to_epipolar_lines c2 (transpose_m F))))
     (map np_sqrt
        (map2 np_add
           (reciprocals (line_sq_norms (convert_to_epipolar_lines c2 (transpose_m F))))
           (reciprocals (line_sq_norms (convert_to_epipolar_lines c1 F)))))
   = map2 (spec_sed_row F) c1 c2"
  by (induction c1 c2 rule: list_induct2)
    (simp_all add: convert_to_epipolar_lines_def reciprocals_def line_sq_norms_def
      spec_sed_row_def spec_numerator_def spec_line1_def spec_line2_def line_sq_norm_xy)

lemma sampson_rows:
  "length c1 = length c2 \<Longrightarrow>
   map2 np_divide
     (map Fin (map2 (\<lambda>p l. dot3 (homogeneous p) l) c1
        (convert_to_epipolar_lines c2 (transpose_m F))))
     (map Fin (map sqrt
        (map2 (+)
           (line_sq_norms (convert_to_epipolar_lines c2 (transpose_m F)))
           (line_sq_norms (convert_to_epipolar_lines c1 F)))))
   = map2 (spec_sampson_row F) c1 c2"
  by (induction c1 c2 rule: list_induct2)
    (simp_all add: convert_to_epipolar_lines_def line_sq_norms_def
      spec_sampson_row_def spec_numerator_def spec_line1_def spec_line2_def line_sq_norm_xy)

text \<open>
  Where no line degenerates, the numpy arithmetic of a row is the real arithmetic of the
  formula; where one does, the row is not finite.
\<close>

lemma spec_sed_row_finite:
  assumes "line_xy_norm (spec_line1 F p2) \<noteq> 0" and "line_xy_norm (spec_line2 F p1) \<noteq> 0"
  shows "spec_sed_row F p1 p2 =
    Fin (spec_numerator F p1 p2 *
         sqrt (1 / (line_xy_norm (spec_line1 F p2))\<^sup>2 + 1 / (line_xy_norm (spec_line2 F p1))\<^sup>2))"
proof -
  have "0 \<le> 1 / (line_xy_norm (spec_line1 F p2))\<^sup>2 + 1 / (line_xy_norm (spec_line2 F p1))\<^sup>2"
    by simp
  then show ?thesis
    using assms by (simp add: spec_sed_row_def not_less)
qed

lemma spec_sampson_row_finite:
  assumes "line_xy_norm (spec_line1 F p2) \<noteq> 0 \<or> line_xy_norm (spec_line2 F p1) \<noteq> 0"
  shows "spec_sampson_row F p1 p2 =
    Fin (spec_numerator F p1 p2 /
         sqrt ((line_xy_norm (spec_line1 F p2))\<^sup>2 + (line_xy_norm (spec_line2 F p1))\<^sup>2))"
proof -
  have "(line_xy_norm (spec_line1 F p2))\<^sup>2 + (line_xy_norm (spec_line2 F p1))\<^sup>2 \<noteq> 0"
    using assms by auto
  then show ?thesis
    by (simp add: spec_sampson_row_def)
qed

lemma spec_sed_row_not_finite:
  assumes "line_xy_norm (spec_line1 F p2) = 0 \<or> line_xy_norm (spec_line2 F p1) = 0"
  shows "\<not> is_finite (spec_sed_row F p1 p2)"
proof -
  have inf: "np_sqrt (np_add (np_divide (Fin 1) (Fin ((line_xy_norm (spec_line1 F p2))\<^sup>2)))
                        (np_divide (Fin 1) (Fin ((line_xy_norm (spec_line2 F p1))\<^sup>2)))) = PInf"
    using assms by auto
  show ?thesis
    unfolding spec_sed_row_def inf by simp
qed

lemma spec_sampson_row_not_finite:
  assumes "line_xy_norm (spec_line1 F p2) = 0" and "line_xy_norm (spec_line2 F p1) = 0"
  shows "\<not> is_finite (spec_sampson_row F p1 p2)"
  using assms by (simp add: spec_sampson_row_def)

text \<open>
  Claim C2. For two non-empty coordinate arrays of the same number of rows and every
  fundamental matrix \<open>F\<close>, \<^verbatim>\<open>compute_epipolar_distances_sed\<close> returns, row by row,
  \<open>numerator * sqrt (1 / |line1_xy|^2 + 1 / |line2_xy|^2)\<close>, where \<open>line2\<close> is \<open>F\<close> applied
  to the homogeneous point 1, \<open>line1\<close> is the transpose of \<open>F\<close> applied to the homogeneous
  point 2, and the numerator is the incidence of the homogeneous point 1 against \<open>line1\<close>.
\<close>

theorem compute_epipolar_distances_sed_rows:
  assumes "c1 \<noteq> []" and "length c1 = length c2"
  shows "compute_epipolar_distances_sed (Some c1) (Some c2) F =
           Inr (Some (map2 (spec_sed_row F) c1 c2))"
proof -
  have ne: "c2 \<noteq> []" using assms by auto
  have len: "length (convert_to_epipolar_lines c2 (transpose_m F)) = length c1"
       "length (convert_to_epipolar_lines c1 F) = length c1"
    using assms by (simp_all add: convert_to_epipolar_lines_def)
  have num: "point_line_dotproduct c1 (convert_to_epipolar_lines c2 (transpose_m F)) =
      Inr (map2 (\<lambda>p l. dot3 (homogeneous p) l) c1 (convert_to_epipolar_lines c2 (transpose_m F)))"
    unfolding point_line_dotproduct_def by (rule broadcast_same_length) (simp add: len)
  have s: "broadcast np_add
        (reciprocals (line_sq_norms (convert_to_epipolar_lines c2 (transpose_m F))))
        (reciprocals (line_sq_norms (convert_to_epipolar_lines c1 F)))
      = Inr (map2 np_add
        (reciprocals (line_sq_norms (convert_to_epipolar_lines c2 (transpose_m F))))
        (reciprocals (line_sq_norms (convert_to_epipolar_lines c1 F))))"
    by (rule broadcast_same_length) (simp add: reciprocals_def line_sq_norms_def len)
  have r: "broadcast np_multiply
        (map Fin (map2 (\<lambda>p l. dot3 (homogeneous p) l) c1
           (convert_to_epipolar_lines c2 (transpose_m F))))
        (map np_sqrt (map2 np_add
           (reciprocals (line_sq_norms (convert_to_epipolar_lines c2 (transpose_m F))))
           (reciprocals (line_sq_norms (convert_to_epipolar_lines c1 F)))))
      = Inr (map2 (spec_sed_row F) c1 c2)"
    using sed_rows [OF assms(2), of F]
    by (simp add: broadcast_same_length reciprocals_def line_sq_norms_def len)
  show ?thesis
    using assms(1) ne
    by (simp add: compute_epipolar_distances_sed_def np_size_def Let_def num s r del: map_map)
qed

theorem compute_epipolar_distances_sed_rows_witness:
  "[(1, 0)] \<noteq> ([] :: coordinates) \<and> length [(1 :: real, 0 :: real)] = length [(0 :: real, 1 :: real)] \<and>
   compute_epipolar_distances_sed (Some [(1, 0)]) (Some [(0, 1)]) (Mat3 0 1 0 1 0 0 0 0 1)
     = Inr (Some [Fin (2 * sqrt 2)])"
  using compute_epipolar_distances_sed_rows [of "[(1, 0)]" "[(0, 1)]" "Mat3 0 1 0 1 0 0 0 0 1"]
  by (simp add: spec_sed_row_def spec_numerator_def spec_line1_def spec_line2_def)

text \<open>
  Claim C3. For the same inputs \<^verbatim>\<open>compute_epipolar_distances_sampson\<close> returns, row by
  row, the same numerator divided by \<open>sqrt (|line1_xy|^2 + |line2_xy|^2)\<close>.
\<close>

theorem compute_epipolar_distances_sampson_rows:
  assumes "c1 \<noteq> []" and "length c1 = length c2"
  shows "compute_epipolar_distances_sampson (Some c1) (Some c2) F =
           Inr (Some (map2 (spec_sampson_row F) c1 c2))"
proof -
  have ne: "c2 \<noteq> []" using assms by auto
  have len: "length (convert_to_epipolar_lines c2 (transpose_m F)) = length c1"
       "length (convert_to_epipolar_lines c1 F) = length c1"
    using assms by (simp_all add: convert_to_epipolar_lines_def)
  have num: "point_line_dotproduct c1 (convert_to_epipolar_lines c2 (transpose_m F)) =
      Inr (map2 (\<lambda>p l. dot3 (homogeneous p) l) c1 (convert_to_epipolar_lines c2 (transpose_m F)))"
    unfolding point_line_dotproduct_def by (rule broadcast_same_length) (simp add: len)
  have s: "broadcast (+)
        (line_sq_norms (convert_to_epipolar_lines c2 (transpose_m F)))
        (line_sq_norms (convert_to_epipolar_lines c1 F))
      = Inr (map2 (+)
        (line_sq_norms (convert_to_epipolar_lines c2 (transpose_m F)))
        (line_sq_norms (convert_to_epipolar_lines c1 F)))"
    by (rule broadcast_same_length) (simp add: line_sq_norms_def len)
  have r: "broadcast np_divide
        (map Fin (map2 (\<lambda>p l. dot3 (homogeneous p) l) c1
           (convert_to_epipolar_lines c2 (transpose_m F))))
        (map Fin (map sqrt (map2 (+)
           (line_sq_norms (convert_to_epipolar_lines c2 (transpose_m F)))
           (line_sq_norms (convert_to_epipolar_lines c1 F)))))
      = Inr (map2 (spec_sampson_row F) c1 c2)"
    using sampson_rows [OF assms(2), of F]
    by (simp add: broadcast_same_length line_sq_norms_def len)
  show ?thesis
    using assms(1) ne
    by (simp add: compute_epipolar_distances_sampson_def np_size_def Let_def num s r del: map_map)
qed

theorem compute_epipolar_distances_sampson_rows_witness:
  "[(1, 0)] \<noteq> ([] :: coordinates) \<and> length [(1 :: real, 0 :: real)] = length [(0 :: real, 1 :: real)] \<and>
   compute_epipolar_distances_sampson (Some [(1, 0)]) (Some [(0, 1)]) (Mat3 0 1 0 1 0 0 0 0 1)
     = Inr (Some [Fin (2 / sqrt 2)])"
  using compute_epipolar_distances_sampson_rows [of "[(1, 0)]" "[(0, 1)]" "Mat3 0 1 0 1 0 0 0 0 1"]
  by (simp add: spec_sampson_row_def spec_numerator_def spec_line1_def spec_line2_def)

text \<open>
  Claim C7. The divisions by the line norms are not guarded. For the points \<open>(0, 0)\<close>,
  \<open>(0, 0)\<close> and the matrix with rows \<open>(0, 1, 0)\<close>, \<open>(1, 0, 0)\<close>, \<open>(0, 0, 1)\<close> both epipolar
  lines have xy-norm zero, and both functions return an array holding plus infinity; for
  the zero matrix both return an array holding NaN. Neither raises nor clamps.
\<close>

theorem epipolar_distances_unguarded_division:
  "line_sq_norms (convert_to_epipolar_lines [(0, 0)] (transpose_m (Mat3 0 1 0 1 0 0 0 0 1))) = [0] \<and>
   line_sq_norms (convert_to_epipolar_lines [(0, 0)] (Mat3 0 1 0 1 0 0 0 0 1)) = [0] \<and>
   compute_epipolar_distances_sed (Some [(0, 0)]) (Some [(0, 0)]) (Mat3 0 1 0 1 0 0 0 0 1)
     = Inr (Some [PInf]) \<and>
   compute_epipolar_distances_sampson (Some [(0, 0)]) (Some [(0, 0)]) (Mat3 0 1 0 1 0 0 0 0 1)
     = Inr (Some [PInf]) \<and>
   compute_epipolar_distances_sed (Some [(0, 0)]) (Some [(0, 0)]) (Mat3 0 0 0 0 0 0 0 0 0)
     = Inr (Some [NaN]) \<and>
   compute_epipolar_distances_sampson (Some [(0, 0)]) (Some [(0, 0)]) (Mat3 0 0 0 0 0 0 0 0 0)
     = Inr (Some [NaN]) \<and>
   \<not> is_finite PInf \<and> \<not> is_finite NaN"
  by (simp add: compute_epipolar_distances_sed_def compute_epipolar_distances_sampson_def
      np_size_def convert_to_epipolar_lines_def line_sq_norms_def point_line_dotproduct_def
      broadcast_def reciprocals_def)

section \<open>ViewPairScorer\<close>

lemma norm3_eq_0_iff: "norm3 v = 0 \<longleftrightarrow> v = (0, 0, 0)"
proof (cases v)
  case (fields x y z)
  have "x * x + y * y + z * z = 0 \<longleftrightarrow> x * x + y * y = 0 \<and> z * z = 0"
    by (intro add_nonneg_eq_0_iff add_nonneg_nonneg zero_le_square)
  then show ?thesis
    by (simp add: fields norm3_def)
qed

text \<open>
  Claim C6, as its amended form. For nonzero rays with the angle \<open>theta\<close> (in degrees)
  between them, and parameters of which the selected width \<open>sigma\<close> (\<open>sigma_1\<close> if
  \<open>theta \<le> theta_0\<close>, \<open>sigma_2\<close> otherwise) is not zero, \<^verbatim>\<open>piecewise_gaussian\<close> returns
  \<open>exp (- (theta - theta_0)^2 / (2 * sigma^2))\<close>; the score lies in \<open>(0, 1]\<close> and is
  exactly 1 when \<open>theta = theta_0\<close>.
\<close>

theorem piecewise_gaussian_score:
  assumes "xPa \<noteq> (0, 0, 0)" and "xPb \<noteq> (0, 0, 0)"
    and "theta = angle_degrees xPa xPb"
    and "sigma = (if theta \<le> theta_0 then sigma_1 else sigma_2)"
    and "sigma \<noteq> 0"
  shows "\<exists>score. piecewise_gaussian xPa xPb theta_0 sigma_1 sigma_2 = Inr score \<and>
           score = exp (- ((theta - theta_0)\<^sup>2) / (2 * sigma\<^sup>2)) \<and>
           0 < score \<and> score \<le> 1 \<and> (theta = theta_0 \<longrightarrow> score = 1)"
proof -
  have ang: "angle_between_vectors xPa xPb = Inr theta"
    using assms(1-3) by (simp add: angle_between_vectors_def norm3_eq_0_iff)
  have val: "piecewise_gaussian xPa xPb theta_0 sigma_1 sigma_2 =
      Inr (exp (- ((theta - theta_0)\<^sup>2) / (2 * sigma\<^sup>2)))"
    using assms(4,5) by (simp add: piecewise_gaussian_def ang Let_def)
  have "- ((theta - theta_0)\<^sup>2) / (2 * sigma\<^sup>2) \<le> 0"
    by (simp add: divide_nonpos_nonneg)
  then have le: "exp (- ((theta - theta_0)\<^sup>2) / (2 * sigma\<^sup>2)) \<le> 1"
    by simp
  show ?thesis
    using val le by simp
qed

text \<open>
  The rays \<open>(1, 0, 0)\<close> and \<open>(0, 1, 0)\<close> are 90 degrees apart: with the default parameters
  the far width is selected, and with \<open>theta_0 = 90\<close> the score is 1.
\<close>

theorem piecewise_gaussian_score_witness:
  "(1, 0, 0) \<noteq> (0 :: real, 0 :: real, 0 :: real) \<and> (0, 1, 0) \<noteq> (0 :: real, 0 :: real, 0 :: real) \<and>
   angle_degrees (1, 0, 0) (0, 1, 0) = 90 \<and>
   piecewise_gaussian (1, 0, 0) (0, 1, 0) 5 1 10 = Inr (exp (- (85\<^sup>2) / (2 * 10\<^sup>2))) \<and>
   piecewise_gaussian (1, 0, 0) (0, 1, 0) 90 1 10 = Inr 1"
proof -
  have a: "(1, 0, 0) \<noteq> (0 :: real, 0 :: real, 0 :: real)" by simp
  have b: "(0, 1, 0) \<noteq> (0 :: real, 0 :: real, 0 :: real)" by simp
  have t: "(90 :: real) = angle_degrees (1, 0, 0) (0, 1, 0)"
    by (simp add: angle_degrees_def norm3_def)
  have s1: "(10 :: real) = (if (90 :: real) \<le> 5 then 1 else 10)" by simp
  have s2: "(1 :: real) = (if (90 :: real) \<le> 90 then 1 else 10)" by simp
  show ?thesis
    using a b t
      piecewise_gaussian_score [OF a b t s1, of] piecewise_gaussian_score [OF a b t s2]
    by simp
qed

text \<open>
  The claim as it is stated takes every parameter. With a selected width of zero the
  division in the exponent raises, also when \<open>theta = theta_0\<close>.
\<close>

theorem piecewise_gaussian_zero_sigma_counterexample:
  "(1, 0, 0) \<noteq> (0 :: real, 0 :: real, 0 :: real) \<and> angle_degrees (1, 0, 0) (1, 0, 0) = 0 \<and>
   piecewise_gaussian (1, 0, 0) (1, 0, 0) 0 0 10 = Inl ZeroDivisionError"
  by (simp add: piecewise_gaussian_def angle_between_vectors_def angle_degrees_def norm3_def)

text \<open>
  Claim C8. If either ray has zero magnitude, \<^verbatim>\<open>piecewise_gaussian\<close> fails with the
  DegenerateVectorError of the angle computation and returns no score.
\<close>

theorem piecewise_gaussian_degenerate:
  assumes "xPa = (0, 0, 0) \<or> xPb = (0, 0, 0)"
  shows "piecewise_gaussian xPa xPb theta_0 sigma_1 sigma_2 = Inl DegenerateVectorError"
  using assms by (auto simp: piecewise_gaussian_def angle_between_vectors_def norm3_eq_0_iff)

theorem piecewise_gaussian_degenerate_witness:
  "((0, 0, 0) = (0 :: real, 0 :: real, 0 :: real) \<or> (1, 0, 0) = (0 :: real, 0 :: real, 0 :: real)) \<and>
   piecewise_gaussian (0, 0, 0) (1, 0, 0) 5 1 10 = Inl DegenerateVectorError"
  using piecewise_gaussian_degenerate [of "(0, 0, 0)" "(1, 0, 0)" 5 1 10] by simp

end
